theory Spec2Isabelle
  imports Main
begin

section \<open>Data model\<close>

text \<open>Go error values: \<open>io.EOF\<close>, and every other error by its message.\<close>

datatype error = EOF | Err string

fun Error :: "error \<Rightarrow> string" where
  "Error EOF = ''EOF''"
| "Error (Err s) = s"

text \<open>Operands of the variadic formatting calls: strings and integers.\<close>

datatype arg = S string | I int

text \<open>The parsed message, with the fields the tests of the repository name.\<close>

record message =
  Raw :: string
  Name :: string
  User :: string
  Host :: string
  Command :: string
  Params :: string
  ParamsArray :: "string list"

text \<open>
  The transport (\<open>net.Conn\<close>) is an interface; its behaviour is given by two scripts:
  the results of the successive \<open>ReadLine\<close> calls (line and error, as Go returns both;
  an exhausted script is end of stream) and the results of the successive \<open>Write\<close>
  calls (an exhausted script accepts every write).
\<close>

record conn =
  rd :: "(string \<times> error option) list"
  wr :: "error option list"

text \<open>Every effect the client has on the world, in the order it happens.\<close>

datatype event =
    Dial string
  | Write string
  | Close
  | Sleep int
  | Printf string "arg list"
  | Publish string message

text \<open>
  The \<open>Client\<close> struct, with the fields that \<open>conn.go\<close> and \<open>core.go\<close> use. The
  logger and the hub are seen through the events they receive; \<open>quit\<close> holds the
  results of the successive non-blocking receives on the quit channel (exhausted: nothing
  pending) and \<open>dials\<close> the results of the successive \<open>net.Dial\<close> calls (exhausted:
  the dial fails). The mutex \<open>infoMu\<close> has no sequential content.
\<close>

record client =
  conn :: "conn option"
  addr :: string
  nick :: string
  currentNick :: string
  user :: string
  realName :: string
  debug :: bool
  quit :: "bool list"
  dials :: "(error + conn) list"
  trace :: "event list"

text \<open>
  A call returns an error value (\<open>None\<close> is Go's \<open>nil\<close>) or panics (a method call
  on a nil interface or a nil pointer dereference).
\<close>

datatype outcome = Returned "error option" | Panicked

section \<open>core.go\<close>

text \<open>
  Modelled from the spec: the constant \<open>eol\<close> is declared outside the files at hand;
  protocol lines are terminated by CR-LF.
\<close>

definition eol :: string where
  "eol = [CHR 0x0D, CHR 0x0A]"

text \<open>
  \<open>fmt.Sprintf\<close> of the Go standard library, on the fragment the repository uses:
  literal text, \<open>%%\<close> and the verb \<open>%s\<close> applied to a string operand. A verb with
  no operand left is rendered as Go does (\<open>%!s(MISSING)\<close>); other verbs, operands of
  another type and surplus operands are outside the fragment (the text is copied as it
  stands).
\<close>

fun Sprintf :: "string \<Rightarrow> arg list \<Rightarrow> string" where
  "Sprintf [] as = []"
| "Sprintf [c] as = [c]"
| "Sprintf (c # v # f) as =
     (if c = CHR ''%'' \<and> v = CHR ''%'' then CHR ''%'' # Sprintf f as
      else if c = CHR ''%'' \<and> v = CHR ''s'' then
        (case as of
           [] \<Rightarrow> ''%!s(MISSING)'' @ Sprintf f []
         | S x # as' \<Rightarrow> x @ Sprintf f as'
         | I n # as' \<Rightarrow> c # v # Sprintf f as')
      else c # Sprintf (v # f) as)"

text \<open>\<open>log\<close>: hands the message to the logger when debugging is on and the format is not empty.\<close>

definition log :: "client \<Rightarrow> string \<Rightarrow> arg list \<Rightarrow> client" where
  "log c format args =
     (if debug c \<and> format \<noteq> [] then c\<lparr>trace := trace c @ [Printf format args]\<rparr> else c)"

text \<open>\<open>c.conn.Write\<close>: the call is recorded and answered by the script of the transport.\<close>

definition conn_Write :: "client \<Rightarrow> conn \<Rightarrow> string \<Rightarrow> error option \<times> client" where
  "conn_Write c k s =
     (case wr k of
        [] \<Rightarrow> (None, c\<lparr>trace := trace c @ [Write s]\<rparr>)
      | r # rs \<Rightarrow> (r, c\<lparr>conn := Some (k\<lparr>wr := rs\<rparr>), trace := trace c @ [Write s]\<rparr>))"

text \<open>
  \<open>Sendf\<close>. The formatter is a parameter, so that what is proved of \<open>Sendf\<close> for every
  formatter holds of \<open>fmt.Sprintf\<close> on every format string; the callers in the repository
  pass \<open>Sprintf\<close>.
\<close>

definition Sendf ::
  "(string \<Rightarrow> arg list \<Rightarrow> string) \<Rightarrow> client \<Rightarrow> string \<Rightarrow> arg list \<Rightarrow> error option \<times> client" where
  "Sendf sprintf c format args =
     (case conn c of
        None \<Rightarrow> (None, c)
      | Some k \<Rightarrow>
          let s = sprintf (format @ eol) args;
              s = (if length s > 510 then take 510 s @ eol else s);
              c = log c s []
          in conn_Write c k s)"

text \<open>\<open>strings.Split(s, " ")\<close>: the pieces of \<open>s\<close> between single spaces, never an empty list.\<close>

fun Split :: "string \<Rightarrow> string list" where
  "Split [] = [[]]"
| "Split (c # s) =
     (if c = CHR '' '' then [] # Split s
      else (case Split s of w # ws \<Rightarrow> (c # w) # ws | [] \<Rightarrow> [[c]]))"

text \<open>
  The first loop of \<open>Privmsg\<close> (\<open>for i, w := range words\<close>): \<open>lcmd\<close> is \<open>len(cmd)\<close>,
  \<open>n\<close> is \<open>len(words)\<close>, \<open>i\<close> the index of the word at hand; the result is \<open>msgs\<close>
  when the loop ends.
\<close>

fun Privmsg_words :: "nat \<Rightarrow> nat \<Rightarrow> nat \<Rightarrow> string list \<Rightarrow> string list \<Rightarrow> string \<Rightarrow> string list" where
  "Privmsg_words lcmd n i [] msgs msg = msgs"
| "Privmsg_words lcmd n i (w # ws) msgs msg =
     (let (msgs, msg) =
            (if lcmd + length msg + length w + 1 \<ge> 510 \<or> int i = int n - 1
             then (msgs @ [msg], []) else (msgs, msg));
          msg = (if msg \<noteq> [] then msg @ '' '' @ w else w)
      in Privmsg_words lcmd n (i + 1) ws msgs msg)"

text \<open>The second loop of \<open>Privmsg\<close> (\<open>for _, m := range msgs\<close>): stops at the first error.\<close>

fun Privmsg_send :: "client \<Rightarrow> string \<Rightarrow> string list \<Rightarrow> error option \<times> client" where
  "Privmsg_send c cmd [] = (None, c)"
| "Privmsg_send c cmd (m # ms) =
     (case Sendf Sprintf c ''%s%s'' [S cmd, S m] of
        (Some err, c') \<Rightarrow> (Some err, c')
      | (None, c') \<Rightarrow> Privmsg_send c' cmd ms)"

definition Privmsg :: "client \<Rightarrow> string \<Rightarrow> string \<Rightarrow> error option \<times> client" where
  "Privmsg c target message =
     (let cmd = Sprintf ''PRIVMSG %s :'' [S target] in
      if length cmd + length message \<le> 510 then Sendf Sprintf c ''%s%s'' [S cmd, S message]
      else
        let words = Split message;
            msgs = Privmsg_words (length cmd) (length words) 0 words [] []
        in Privmsg_send c cmd msgs)"

definition Nick :: "client \<Rightarrow> string \<Rightarrow> error option \<times> client" where
  "Nick c n = Sendf Sprintf c ''NICK %s'' [S n]"


definition Whois :: "client \<Rightarrow> string \<Rightarrow> error option \<times> client" where
  "Whois c n = Sendf Sprintf c ''WHOIS %s'' [S n]"

text \<open>\<open>ReclaimNick\<close> returns nothing: the error of \<open>Whois\<close> is dropped.\<close>

definition ReclaimNick :: "client \<Rightarrow> client" where
  "ReclaimNick c = (if nick c \<noteq> currentNick c then snd (Whois c (nick c)) else c)"

section \<open>conn.go\<close>

text \<open>\<open>net.Dial("tcp", c.addr)\<close>, answered by the script \<open>dials\<close>.\<close>

definition net_Dial :: "client \<Rightarrow> (error + conn) \<times> client" where
  "net_Dial c =
     (case dials c of
        [] \<Rightarrow> (Inl (Err ''dial failed''), c\<lparr>trace := trace c @ [Dial (addr c)]\<rparr>)
      | r # rs \<Rightarrow> (r, c\<lparr>dials := rs, trace := trace c @ [Dial (addr c)]\<rparr>))"

text \<open>
  \<open>Connect\<close>. Its last statement calls the read loop, which calls \<open>reconnect\<close>, which
  calls \<open>Connect\<close>: the read loop is a parameter here, and the recursion is closed in
  \<open>loop\<close> below. \<open>None\<close> is a call that has not returned within the fuel of the loop.
\<close>

definition Connect ::
  "(client \<Rightarrow> (outcome \<times> client) option) \<Rightarrow> client \<Rightarrow> (outcome \<times> client) option" where
  "Connect loop c =
     (if conn c = None \<and> addr c = [] then
        Some (Returned (Some (Err ''no conn or addr found, use WithConn or WithAddr'')), c)
      else if nick c = [] then
        Some (Returned (Some (Err ''no nick set, use WithNick to set the nick'')), c)
      else
        let c = c\<lparr>currentNick := nick c\<rparr>;
            c = (if user c = [] then c\<lparr>user := nick c\<rparr> else c);
            c = (if realName c = [] then c\<lparr>realName := nick c\<rparr> else c);
            (err, c) = (if conn c = None then
                          (case net_Dial c of
                             (Inl e, c) \<Rightarrow> (Some e, c\<lparr>conn := None\<rparr>)
                           | (Inr k, c) \<Rightarrow> (None, c\<lparr>conn := Some k\<rparr>))
                        else (None, c))
        in case err of
             Some e \<Rightarrow> Some (Returned (Some e), c)
           | None \<Rightarrow>
               (case Sendf Sprintf c ''USER %s * * :%s'' [S (user c), S (realName c)] of
                  (Some e, c) \<Rightarrow> Some (Returned (Some e), c)
                | (None, c) \<Rightarrow>
                    (case Nick c (currentNick c) of
                       (Some e, c) \<Rightarrow> Some (Returned (Some e), c)
                     | (None, c) \<Rightarrow> loop c)))"

text \<open>\<open>time.Second\<close>, in nanoseconds, and \<open>time.Sleep\<close>.\<close>

definition second :: int where
  "second = 1000000000"

definition time_Sleep :: "client \<Rightarrow> int \<Rightarrow> client" where
  "time_Sleep c d = c\<lparr>trace := trace c @ [Sleep d]\<rparr>"

text \<open>
  The loop of \<open>reconnect\<close> (\<open>for i := 0; i < 10; i++\<close>), with \<open>Connect\<close> as a parameter.
  Beside the result it returns an account of its own iterations: for each call of
  \<open>Connect\<close> it made, the time it slept just before and what the call returned.
\<close>

function reconnect_for ::
  "(client \<Rightarrow> (outcome \<times> client) option) \<Rightarrow> nat \<Rightarrow> int \<Rightarrow> client
     \<Rightarrow> (outcome \<times> client \<times> (int \<times> outcome) list) option" where
  "reconnect_for connect i rt c =
     (if i < 10 then
        let c = log c ''connection closed, trying to reconnect in %d seconds'' [I (rt div second)];
            c = time_Sleep c rt
        in case connect c of
             None \<Rightarrow> None
           | Some (Panicked, c) \<Rightarrow> Some (Panicked, c, [(rt, Panicked)])
           | Some (Returned None, c) \<Rightarrow> Some (Returned None, c, [(rt, Returned None)])
           | Some (Returned (Some err), c) \<Rightarrow>
               (case reconnect_for connect (i + 1) (rt * 2) (log c (Error err) []) of
                  None \<Rightarrow> None
                | Some (r, c', as) \<Rightarrow> Some (r, c', (rt, Returned (Some err)) # as))
      else Some (Returned (Some (Err ''unable to reconnect, giving up'')), c, []))"
  by pat_completeness auto
termination
  by (relation "measure (\<lambda>(connect, i, rt, c). 10 - i)") auto

declare reconnect_for.simps [simp del]

text \<open>\<open>reconnect\<close>: closes and drops the transport (a panic when there is none), then retries.\<close>

definition reconnect ::
  "(client \<Rightarrow> (outcome \<times> client) option) \<Rightarrow> client \<Rightarrow> (outcome \<times> client) option" where
  "reconnect connect c =
     (case conn c of
        None \<Rightarrow> Some (Panicked, c)
      | Some k \<Rightarrow>
          map_option (\<lambda>(r, c', as). (r, c'))
            (reconnect_for connect 0 (5 * second) (c\<lparr>conn := None, trace := trace c @ [Close]\<rparr>)))"

text \<open>The non-blocking receive on the quit channel, and \<open>tr.ReadLine()\<close>.\<close>

definition poll_quit :: "client \<Rightarrow> bool \<times> client" where
  "poll_quit c = (case quit c of [] \<Rightarrow> (False, c) | q # qs \<Rightarrow> (q, c\<lparr>quit := qs\<rparr>))"

definition ReadLine :: "client \<Rightarrow> conn \<Rightarrow> (string \<times> error option) \<times> client" where
  "ReadLine c k =
     (case rd k of
        [] \<Rightarrow> (([], Some EOF), c)
      | r # rs \<Rightarrow> (r, c\<lparr>conn := Some (k\<lparr>rd := rs\<rparr>)\<rparr>))"

text \<open>
  Modelled from the spec: the hub is declared outside the files at hand; a publish hands
  the message to the handlers of that name, which run on their own and are not waited for.
  Here a publish is the event.
\<close>

definition hub_Send :: "client \<Rightarrow> string \<Rightarrow> message \<Rightarrow> client" where
  "hub_Send c name m = c\<lparr>trace := trace c @ [Publish name m]\<rparr>"

text \<open>
  \<open>loop\<close>. The function \<open>parse\<close> is declared outside the files at hand and is a
  parameter, with Go's result type \<open>(*Message, error)\<close>: the pointer may be nil, as the
  test of the empty line expects. The loop may run for ever; the fuel bounds the number of
  iterations, counted along each chain of nested calls.
\<close>

fun loop ::
  "(string \<Rightarrow> message option \<times> error option) \<Rightarrow> nat \<Rightarrow> client \<Rightarrow> (outcome \<times> client) option" where
  "loop parse 0 c = None"
| "loop parse (Suc n) c =
     (let (q, c) = poll_quit c in
      case conn c of
        None \<Rightarrow> Some (Panicked, c)
      | Some k \<Rightarrow>
          if q then Some (Returned None, c\<lparr>trace := trace c @ [Close]\<rparr>)
          else
            let ((l, err), c) = ReadLine c k;
                c = log c l []
            in if err = Some EOF then reconnect (Connect (loop parse n)) c
               else case err of
                 Some e \<Rightarrow> Some (Returned (Some e), c)
               | None \<Rightarrow>
                   (case parse l of
                      (_, Some e) \<Rightarrow> loop parse n (log c (Error e) [])
                    | (None, None) \<Rightarrow> Some (Panicked, c)
                    | (Some m, None) \<Rightarrow> loop parse n (hub_Send (hub_Send c (Command m) m) ''*'' m)))"

section \<open>A client of the test suite\<close>

text \<open>
  The client that \<open>client_test.go\<close> builds: an open transport (here one that has nothing
  to read and accepts every write), nick \<open>foo\<close>, user \<open>bar\<close>, real name \<open>foo bar\<close>.
\<close>

definition test_client :: client where
  "test_client =
     \<lparr>conn = Some \<lparr>rd = [], wr = []\<rparr>, addr = [], nick = ''foo'', currentNick = [],
      user = ''bar'', realName = ''foo bar'', debug = False, quit = [], dials = [], trace = []\<rparr>"

text \<open>
  Modelled from the spec: \<open>parse\<close> is declared outside the files at hand. This stand-in
  serves to run the loop on sample input only: it knows the \<open>PING\<close> line of the test
  script, answers the empty line with a nil message and no error, as \<open>TestMessages\<close>
  expects, and rejects every other line as malformed.
\<close>

definition parse_sample :: "string \<Rightarrow> message option \<times> error option" where
  "parse_sample l =
     (if l = [] then (None, None)
      else if l = ''PING :irc.example.net'' then
        (Some \<lparr>Raw = l, Name = [], User = [], Host = [], Command = ''PING'',
               Params = '':irc.example.net'', ParamsArray = ['':irc.example.net'']\<rparr>, None)
      else (None, Some (Err ''malformed message'')))"

text \<open>The lines handed to \<open>Write\<close>, in order, among the events of a trace.\<close>

fun writes :: "event list \<Rightarrow> string list" where
  "writes [] = []"
| "writes (Write s # es) = s # writes es"
| "writes (e # es) = writes es"


section \<open>Framing of outbound lines\<close>

lemma trace_log: "trace (log c f as) = trace c @ (if debug c \<and> f \<noteq> [] then [Printf f as] else [])"
  by (simp add: log_def)

lemma conn_log [simp]: "conn (log c f as) = conn c"
  by (simp add: log_def)

lemma currentNick_log [simp]: "currentNick (log c f as) = currentNick c"
  by (simp add: log_def)

lemma trace_conn_Write [simp]: "trace (snd (conn_Write c k s)) = trace c @ [Write s]"
  by (simp add: conn_Write_def split: list.split)

lemma currentNick_conn_Write [simp]: "currentNick (snd (conn_Write c k s)) = currentNick c"
  by (simp add: conn_Write_def split: list.split)

lemma writes_append [simp]: "writes (xs @ ys) = writes xs @ writes ys"
  by (induction xs rule: writes.induct) auto

lemma writes_log [simp]: "writes (trace (log c f as)) = writes (trace c)"
  by (simp add: log_def)

lemma Sprintf_NICK: "Sprintf (''NICK %s'' @ eol) [S n] = ''NICK '' @ n @ eol"
  by (simp add: eol_def)

lemma Sprintf_WHOIS: "Sprintf (''WHOIS %s'' @ eol) [S n] = ''WHOIS '' @ n @ eol"
  by (simp add: eol_def)

lemma Sprintf_USER: "Sprintf (''USER %s * * :%s'' @ eol) [S u, S r] = ''USER '' @ u @ '' * * :'' @ r @ eol"
  by (simp add: eol_def)

lemma Sendf_open:
  assumes "conn c = Some k" and "sprintf (format @ eol) args = s"
    and "w = (if 510 < length s then take 510 s @ eol else s)"
  shows "Sendf sprintf c format args = conn_Write (log c w []) k w"
  using assms by (simp add: Sendf_def Let_def)

lemma Sendf_currentNick [simp]: "currentNick (snd (Sendf sprintf c format args)) = currentNick c"
  by (simp add: Sendf_def Let_def split: option.split)

lemma Sendf_nick [simp]: "nick (snd (Sendf sprintf c format args)) = nick c"
  by (simp add: Sendf_def Let_def conn_Write_def log_def split: option.split list.split)

text \<open>
  C1, as the code has it. On an open transport \<open>Sendf\<close> makes one \<open>Write\<close>, after the
  debug log of the same line. The line written is the formatted string with its
  terminator when that has at most 510 characters; otherwise it is the first 510
  characters of it followed by a terminator of its own. So the line has at most 512
  characters, terminator included, whatever the formatter returns.
\<close>

theorem Sendf_line_cap:
  assumes "conn c = Some k"
    and "w = (if 510 < length (sprintf (format @ eol) args)
              then take 510 (sprintf (format @ eol) args) @ eol
              else sprintf (format @ eol) args)"
  shows "trace (snd (Sendf sprintf c format args)) = trace (log c w []) @ [Write w] \<and> length w \<le> 512"
  using assms by (simp add: Sendf_def Let_def eol_def)

theorem Sendf_line_cap_witness:
  "conn test_client = Some \<lparr>rd = [], wr = []\<rparr> \<and>
   trace (snd (Sendf Sprintf test_client ''%s'' [S (replicate 600 (CHR ''a''))]))
     = [Write (replicate 510 (CHR ''a'') @ eol)]"
  using Sendf_line_cap [of test_client "\<lparr>rd = [], wr = []\<rparr>" _ Sprintf "''%s''"
      "[S (replicate 600 (CHR ''a''))]", OF _ refl]
  by (simp add: test_client_def eol_def log_def)

text \<open>
  C1 as stated fails: a string of 600 characters is written as a line of 512 characters,
  the terminator included, which is more than 510.
\<close>

theorem Sendf_cap_counterexample:
  "trace (snd (Sendf Sprintf test_client ''%s'' [S (replicate 600 (CHR ''a''))]))
     = [Write (replicate 510 (CHR ''a'') @ eol)] \<and>
   \<not> length (replicate 510 (CHR ''a'') @ eol) \<le> 510"
  by (simp add: Sendf_def test_client_def eol_def log_def conn_Write_def)

text \<open>
  C8. With no transport, \<open>Sendf\<close> returns nil and leaves the client as it was: nothing is
  written, nothing is logged, for every formatter, format string and operands.
\<close>

theorem Sendf_no_conn:
  "conn c = None \<Longrightarrow> Sendf sprintf c format args = (None, c)"
  by (simp add: Sendf_def)

theorem Sendf_no_conn_witness:
  "conn (test_client\<lparr>conn := None\<rparr>) = None \<and>
   Sendf Sprintf (test_client\<lparr>conn := None\<rparr>) ''NICK %s'' [S ''foo'']
     = (None, test_client\<lparr>conn := None\<rparr>)"
  using Sendf_no_conn [of "test_client\<lparr>conn := None\<rparr>" Sprintf "''NICK %s''" "[S ''foo'']"]
  by simp

section \<open>Splitting of long messages\<close>

lemma Split_no_space: "CHR '' '' \<notin> set u \<Longrightarrow> Split u = [u]"
  by (induction u) auto

lemma Split_space: "CHR '' '' \<notin> set u \<Longrightarrow> Split (u @ CHR '' '' # v) = u # Split v"
  by (induction u) auto

text \<open>
  C2 at a message of two words of 300 characters each, sent to \<open>#c\<close>: the only line
  written carries the first word. At the last word the loop stores the line built so
  far and starts a new one with that word, which is never stored: the last word is not
  sent.
\<close>

theorem Privmsg_drops_last_word:
  "Privmsg test_client ''#c'' (replicate 300 (CHR ''x'') @ '' '' @ replicate 300 (CHR ''y''))
     = (None, test_client\<lparr>trace := [Write (''PRIVMSG #c :'' @ replicate 300 (CHR ''x'') @ eol)]\<rparr>)"
  by (simp add: Privmsg_def Split_space Split_no_space Sendf_def test_client_def eol_def
      log_def conn_Write_def)

section \<open>Nick helpers\<close>



lemma Whois_open:
  assumes "conn c = Some k"
    and "w = (if 510 < length (''WHOIS '' @ n @ eol) then take 510 (''WHOIS '' @ n @ eol) @ eol
              else ''WHOIS '' @ n @ eol)"
  shows "Whois c n = conn_Write (log c w []) k w"
  unfolding Whois_def using assms Sendf_open [of c k Sprintf "''WHOIS %s''" "[S n]", OF _ Sprintf_WHOIS]
  by simp

text \<open>
  C9, as the code has it. When the nick held is the configured one, and also when no
  transport is open, \<open>ReclaimNick\<close> leaves the client as it was. On an open transport
  with the two nicks different it makes one \<open>Write\<close>, of the line \<open>WHOIS <nick>\<close> with
  its terminator, framed by \<open>Sendf\<close>, after the debug log of the same line. So on an
  open transport a line is written if and only if the two nicks differ. Neither nick
  changes.
\<close>

theorem ReclaimNick_open_transport:
  "(nick c = currentNick c \<longrightarrow> ReclaimNick c = c) \<and>
   (conn c = None \<longrightarrow> ReclaimNick c = c) \<and>
   (conn c = Some k \<and>
    w = (if 510 < length (''WHOIS '' @ nick c @ eol) then take 510 (''WHOIS '' @ nick c @ eol) @ eol
         else ''WHOIS '' @ nick c @ eol)
    \<longrightarrow> (nick c \<noteq> currentNick c \<longrightarrow> trace (ReclaimNick c) = trace (log c w []) @ [Write w]) \<and>
        (writes (trace (ReclaimNick c)) \<noteq> writes (trace c) \<longleftrightarrow> nick c \<noteq> currentNick c) \<and>
        nick (ReclaimNick c) = nick c \<and> currentNick (ReclaimNick c) = currentNick c)"
proof (intro conjI impI)
  show "ReclaimNick c = c" if "nick c = currentNick c"
    using that by (simp add: ReclaimNick_def)
  show "ReclaimNick c = c" if "conn c = None"
    using that by (simp add: ReclaimNick_def Whois_def Sendf_def)
  show "nick (ReclaimNick c) = nick c" "currentNick (ReclaimNick c) = currentNick c"
    by (simp_all add: ReclaimNick_def Whois_def)
next
  assume "conn c = Some k \<and>
    w = (if 510 < length (''WHOIS '' @ nick c @ eol) then take 510 (''WHOIS '' @ nick c @ eol) @ eol
         else ''WHOIS '' @ nick c @ eol)"
  then have w: "Whois c (nick c) = conn_Write (log c w []) k w"
    using Whois_open [of c k w "nick c"] by simp
  show "trace (ReclaimNick c) = trace (log c w []) @ [Write w]" if "nick c \<noteq> currentNick c"
    using that by (simp add: ReclaimNick_def w)
  show "writes (trace (ReclaimNick c)) \<noteq> writes (trace c) \<longleftrightarrow> nick c \<noteq> currentNick c"
    by (simp add: ReclaimNick_def w)
qed

theorem ReclaimNick_open_transport_witness:
  "nick (test_client\<lparr>currentNick := ''foo''\<rparr>) = currentNick (test_client\<lparr>currentNick := ''foo''\<rparr>) \<and>
   ReclaimNick (test_client\<lparr>currentNick := ''foo''\<rparr>) = test_client\<lparr>currentNick := ''foo''\<rparr> \<and>
   conn (test_client\<lparr>conn := None\<rparr>) = None \<and>
   ReclaimNick (test_client\<lparr>conn := None\<rparr>) = test_client\<lparr>conn := None\<rparr> \<and>
   nick (test_client\<lparr>currentNick := ''foo_''\<rparr>) \<noteq> currentNick (test_client\<lparr>currentNick := ''foo_''\<rparr>) \<and>
   conn (test_client\<lparr>currentNick := ''foo_''\<rparr>) = Some \<lparr>rd = [], wr = []\<rparr> \<and>
   trace (ReclaimNick (test_client\<lparr>currentNick := ''foo_''\<rparr>)) = [Write (''WHOIS foo'' @ eol)]"
  using ReclaimNick_open_transport [of "test_client\<lparr>currentNick := ''foo''\<rparr>"]
    ReclaimNick_open_transport [of "test_client\<lparr>conn := None\<rparr>"]
    ReclaimNick_open_transport [of "test_client\<lparr>currentNick := ''foo_''\<rparr>" "\<lparr>rd = [], wr = []\<rparr>" "''WHOIS foo'' @ eol"]
  by (simp add: test_client_def eol_def log_def)

text \<open>
  C9 as stated fails: before a transport is open the nick held differs from the
  configured one, and yet \<open>ReclaimNick\<close> sends nothing.
\<close>

theorem ReclaimNick_no_conn_counterexample:
  "nick (test_client\<lparr>conn := None\<rparr>) \<noteq> currentNick (test_client\<lparr>conn := None\<rparr>) \<and>
   ReclaimNick (test_client\<lparr>conn := None\<rparr>) = test_client\<lparr>conn := None\<rparr>"
  by (simp add: test_client_def ReclaimNick_def Whois_def Sendf_def)

section \<open>Connect\<close>

text \<open>
  C6. With neither a transport nor an address, \<open>Connect\<close> returns the error that says so;
  with one of them and no nick, it returns the error that names the nick. In both cases
  the client is returned as it was: nothing is sent, dialled or assigned, and the read
  loop is not entered, whatever the loop is.
\<close>

theorem Connect_configuration_errors:
  "(conn c = None \<and> addr c = [] \<longrightarrow>
      Connect lp c = Some (Returned (Some (Err ''no conn or addr found, use WithConn or WithAddr'')), c)) \<and>
   (\<not> (conn c = None \<and> addr c = []) \<and> nick c = [] \<longrightarrow>
      Connect lp c = Some (Returned (Some (Err ''no nick set, use WithNick to set the nick'')), c))"
  by (simp add: Connect_def)

theorem Connect_configuration_errors_witness:
  "conn (test_client\<lparr>conn := None\<rparr>) = None \<and> addr (test_client\<lparr>conn := None\<rparr>) = [] \<and>
   Connect (loop parse_sample 1) (test_client\<lparr>conn := None\<rparr>)
     = Some (Returned (Some (Err ''no conn or addr found, use WithConn or WithAddr'')), test_client\<lparr>conn := None\<rparr>) \<and>
   \<not> (conn (test_client\<lparr>nick := []\<rparr>) = None \<and> addr (test_client\<lparr>nick := []\<rparr>) = []) \<and>
   nick (test_client\<lparr>nick := []\<rparr>) = [] \<and>
   Connect (loop parse_sample 1) (test_client\<lparr>nick := []\<rparr>)
     = Some (Returned (Some (Err ''no nick set, use WithNick to set the nick'')), test_client\<lparr>nick := []\<rparr>)"
  using Connect_configuration_errors [of "test_client\<lparr>conn := None\<rparr>" "loop parse_sample 1"]
    Connect_configuration_errors [of "test_client\<lparr>nick := []\<rparr>" "loop parse_sample 1"]
  by (simp add: test_client_def)


lemma conn_Write_ok:
  assumes "conn c = Some k" and "set (take 1 (wr k)) \<subseteq> {None}"
  shows "conn_Write c k s = (None, c\<lparr>conn := Some (k\<lparr>wr := tl (wr k)\<rparr>), trace := trace c @ [Write s]\<rparr>)"
proof (cases "wr k")
  case Nil
  have "c\<lparr>conn := Some (k\<lparr>wr := []\<rparr>), trace := trace c @ [Write s]\<rparr> = c\<lparr>trace := trace c @ [Write s]\<rparr>"
    using assms(1) Nil by simp
  then show ?thesis using Nil by (simp add: conn_Write_def)
next
  case (Cons r rs)
  then show ?thesis using assms(2) by (simp add: conn_Write_def)
qed

lemma Connect_enters_loop:
  assumes nick: "nick c \<noteq> []"
    and transport: "conn c = Some k \<and> ds = dials c \<and> tr = trace c \<or>
       conn c = None \<and> addr c \<noteq> [] \<and> dials c = Inr k # ds \<and> tr = trace c @ [Dial (addr c)]"
    and u: "u = (if user c = [] then nick c else user c)"
    and r: "r = (if realName c = [] then nick c else realName c)"
    and wu: "wu = (if 510 < length (''USER '' @ u @ '' * * :'' @ r @ eol)
                   then take 510 (''USER '' @ u @ '' * * :'' @ r @ eol) @ eol
                   else ''USER '' @ u @ '' * * :'' @ r @ eol)"
    and wn: "wn = (if 510 < length (''NICK '' @ nick c @ eol)
                   then take 510 (''NICK '' @ nick c @ eol) @ eol
                   else ''NICK '' @ nick c @ eol)"
    and wr: "set (take 2 (wr k)) \<subseteq> {None}"
  shows "Connect lp c =
         lp (c\<lparr>currentNick := nick c, user := u, realName := r,
               conn := Some (k\<lparr>wr := drop 2 (wr k)\<rparr>), dials := ds,
               trace := tr @ (if debug c then [Printf wu []] else []) @ [Write wu]
                           @ (if debug c then [Printf wn []] else []) @ [Write wn]\<rparr>)"
proof -
  define c1 where "c1 = c\<lparr>currentNick := nick c, user := u, realName := r\<rparr>"
  define c2 where "c2 = c1\<lparr>conn := Some k, dials := ds, trace := tr\<rparr>"
  define c3 where "c3 = (log c2 wu [])\<lparr>conn := Some (k\<lparr>wr := tl (wr k)\<rparr>),
                                        trace := trace (log c2 wu []) @ [Write wu]\<rparr>"
  define c4 where "c4 = (log c3 wn [])\<lparr>conn := Some (k\<lparr>wr := tl (tl (wr k))\<rparr>),
                                        trace := trace (log c3 wn []) @ [Write wn]\<rparr>"
  have w1: "set (take 1 (wr k)) \<subseteq> {None}" and w2: "set (take 1 (tl (wr k))) \<subseteq> {None}"
    using wr by (cases "wr k"; cases "tl (wr k)"; auto)+
  have s1: "Sendf Sprintf c2 ''USER %s * * :%s'' [S u, S r] = (None, c3)"
    using Sendf_open [of c2 k Sprintf "''USER %s * * :%s''" "[S u, S r]", OF _ Sprintf_USER wu]
      conn_Write_ok [of "log c2 wu []" k wu] w1
    by (simp add: c2_def c3_def)
  have s2: "Nick c3 (nick c) = (None, c4)"
    unfolding Nick_def
    using Sendf_open [of c3 "k\<lparr>wr := tl (wr k)\<rparr>" Sprintf "''NICK %s''" "[S (nick c)]", OF _ Sprintf_NICK wn]
      conn_Write_ok [of "log c3 wn []" "k\<lparr>wr := tl (wr k)\<rparr>" wn] w2
    by (simp add: c3_def c4_def)
  have d: "(if conn c1 = None then
              (case net_Dial c1 of (Inl e, c) \<Rightarrow> (Some e, c\<lparr>conn := None\<rparr>)
               | (Inr k, c) \<Rightarrow> (None, c\<lparr>conn := Some k\<rparr>))
            else (None, c1)) = (None, c2)"
    using transport by (auto simp: c1_def c2_def net_Dial_def)
  have f: "user c2 = u" "realName c2 = r" "currentNick c3 = nick c"
    by (simp_all add: c1_def c2_def c3_def)
  have "Connect lp c =
        (case (if conn c1 = None then
                 (case net_Dial c1 of (Inl e, c) \<Rightarrow> (Some e, c\<lparr>conn := None\<rparr>)
                  | (Inr k, c) \<Rightarrow> (None, c\<lparr>conn := Some k\<rparr>))
               else (None, c1)) of
           (err, c) \<Rightarrow>
             (case err of
                Some e \<Rightarrow> Some (Returned (Some e), c)
              | None \<Rightarrow>
                  (case Sendf Sprintf c ''USER %s * * :%s'' [S (user c), S (realName c)] of
                     (Some e, c) \<Rightarrow> Some (Returned (Some e), c)
                   | (None, c) \<Rightarrow>
                       (case Nick c (currentNick c) of
                          (Some e, c) \<Rightarrow> Some (Returned (Some e), c)
                        | (None, c) \<Rightarrow> lp c))))"
    unfolding c1_def u r using nick transport by (auto simp add: Connect_def Let_def)
  also have "\<dots> = lp c4"
    by (simp only: d) (simp add: f s1 s2)
  finally have "Connect lp c = lp c4" .
  moreover have "c4 = c\<lparr>currentNick := nick c, user := u, realName := r,
               conn := Some (k\<lparr>wr := drop 2 (wr k)\<rparr>), dials := ds,
               trace := tr @ (if debug c then [Printf wu []] else []) @ [Write wu]
                           @ (if debug c then [Printf wn []] else []) @ [Write wn]\<rparr>"
    by (simp add: c4_def c3_def c2_def c1_def log_def wu wn drop_Suc numeral_2_eq_2 del: One_nat_def)
  ultimately show ?thesis by simp
qed

lemma Connect_dial_fails:
  assumes "nick c \<noteq> []" and "conn c = None" and "addr c \<noteq> []"
    and "dials c = Inl e # ds"
    and "u = (if user c = [] then nick c else user c)"
    and "r = (if realName c = [] then nick c else realName c)"
  shows "Connect lp c =
         Some (Returned (Some e),
               c\<lparr>currentNick := nick c, user := u, realName := r, dials := ds,
                  trace := trace c @ [Dial (addr c)]\<rparr>)"
  using assms by (simp add: Connect_def net_Dial_def Let_def)

text \<open>
  C7, as the code has it. With a nick configured, \<open>Connect\<close> first assigns: \<open>currentNick\<close>
  becomes the nick, and an empty user or real name becomes the nick. What it sends
  depends on the transport. When there is none and the dial fails, it returns the error
  of the dial: nothing is written and the read loop is not entered. When the transport is
  open already, or the dial succeeds, and the transport accepts the two writes, it writes
  the line \<open>USER <user> * * :<realName>\<close> and then the line \<open>NICK <currentNick>\<close>, each
  with its terminator and framed by \<open>Sendf\<close>, each after its debug log, and nothing else;
  its result is then what the read loop returns from that state, whatever the loop is.
\<close>

theorem Connect_handshake:
  assumes "nick c \<noteq> []"
    and "u = (if user c = [] then nick c else user c)"
    and "r = (if realName c = [] then nick c else realName c)"
  shows "(conn c = None \<and> addr c \<noteq> [] \<and> dials c = Inl e # ds \<longrightarrow>
            Connect lp c =
              Some (Returned (Some e),
                    c\<lparr>currentNick := nick c, user := u, realName := r, dials := ds,
                       trace := trace c @ [Dial (addr c)]\<rparr>)) \<and>
         ((conn c = Some k \<and> ds = dials c \<and> tr = trace c \<or>
           conn c = None \<and> addr c \<noteq> [] \<and> dials c = Inr k # ds \<and> tr = trace c @ [Dial (addr c)]) \<and>
          wu = (if 510 < length (''USER '' @ u @ '' * * :'' @ r @ eol)
                then take 510 (''USER '' @ u @ '' * * :'' @ r @ eol) @ eol
                else ''USER '' @ u @ '' * * :'' @ r @ eol) \<and>
          wn = (if 510 < length (''NICK '' @ nick c @ eol)
                then take 510 (''NICK '' @ nick c @ eol) @ eol
                else ''NICK '' @ nick c @ eol) \<and>
          set (take 2 (wr k)) \<subseteq> {None} \<longrightarrow>
            Connect lp c =
              lp (c\<lparr>currentNick := nick c, user := u, realName := r,
                    conn := Some (k\<lparr>wr := drop 2 (wr k)\<rparr>), dials := ds,
                    trace := tr @ (if debug c then [Printf wu []] else []) @ [Write wu]
                                @ (if debug c then [Printf wn []] else []) @ [Write wn]\<rparr>))"
proof (intro conjI impI)
  show "Connect lp c =
          Some (Returned (Some e),
                c\<lparr>currentNick := nick c, user := u, realName := r, dials := ds,
                   trace := trace c @ [Dial (addr c)]\<rparr>)"
    if "conn c = None \<and> addr c \<noteq> [] \<and> dials c = Inl e # ds"
    using that assms Connect_dial_fails [of c e ds u r lp] by simp
next
  assume a: "(conn c = Some k \<and> ds = dials c \<and> tr = trace c \<or>
           conn c = None \<and> addr c \<noteq> [] \<and> dials c = Inr k # ds \<and> tr = trace c @ [Dial (addr c)]) \<and>
          wu = (if 510 < length (''USER '' @ u @ '' * * :'' @ r @ eol)
                then take 510 (''USER '' @ u @ '' * * :'' @ r @ eol) @ eol
                else ''USER '' @ u @ '' * * :'' @ r @ eol) \<and>
          wn = (if 510 < length (''NICK '' @ nick c @ eol)
                then take 510 (''NICK '' @ nick c @ eol) @ eol
                else ''NICK '' @ nick c @ eol) \<and>
          set (take 2 (wr k)) \<subseteq> {None}"
  show "Connect lp c =
          lp (c\<lparr>currentNick := nick c, user := u, realName := r,
                conn := Some (k\<lparr>wr := drop 2 (wr k)\<rparr>), dials := ds,
                trace := tr @ (if debug c then [Printf wu []] else []) @ [Write wu]
                            @ (if debug c then [Printf wn []] else []) @ [Write wn]\<rparr>)"
    by (rule Connect_enters_loop [OF assms(1) _ assms(2,3)]) (use a in blast)+
qed

theorem Connect_handshake_witness:
  "nick test_client \<noteq> [] \<and> conn test_client = Some \<lparr>rd = [], wr = []\<rparr> \<and>
   Connect (Some \<circ> Pair (Returned None)) test_client
     = Some (Returned None,
         test_client\<lparr>currentNick := ''foo'',
           trace := [Write (''USER bar * * :foo bar'' @ eol), Write (''NICK foo'' @ eol)]\<rparr>) \<and>
   Connect (Some \<circ> Pair (Returned None))
       (test_client\<lparr>conn := None, addr := ''irc.example.net:6667'',
          dials := [Inl (Err ''connection refused'')]\<rparr>)
     = Some (Returned (Some (Err ''connection refused'')),
         test_client\<lparr>conn := None, addr := ''irc.example.net:6667'', currentNick := ''foo'',
           trace := [Dial ''irc.example.net:6667'']\<rparr>)"
proof -
  let ?lp = "Some \<circ> Pair (Returned None)"
  let ?d = "test_client\<lparr>conn := None, addr := ''irc.example.net:6667'', user := [], realName := [],
          dials := [Inr \<lparr>rd = [], wr = [None, None, Some EOF]\<rparr>]\<rparr>"
  let ?f = "test_client\<lparr>conn := None, addr := ''irc.example.net:6667'',
          dials := [Inl (Err ''connection refused'')]\<rparr>"
  have n: "nick test_client \<noteq> []" "nick ?d \<noteq> []" "nick ?f \<noteq> []"
    by (simp_all add: test_client_def)
  have u: "''bar'' = (if user test_client = [] then nick test_client else user test_client)"
    "''bar'' = (if user ?f = [] then nick ?f else user ?f)"
    and r: "''foo bar'' = (if realName test_client = [] then nick test_client else realName test_client)"
    "''foo bar'' = (if realName ?f = [] then nick ?f else realName ?f)"
    by (simp_all add: test_client_def)
  have ha: "(conn test_client = Some \<lparr>rd = [], wr = []\<rparr> \<and> [] = dials test_client \<and> [] = trace test_client \<or>
       conn test_client = None \<and> addr test_client \<noteq> [] \<and> dials test_client = Inr \<lparr>rd = [], wr = []\<rparr> # [] \<and>
         [] = trace test_client @ [Dial (addr test_client)]) \<and>
      ''USER bar * * :foo bar'' @ eol =
        (if 510 < length (''USER '' @ ''bar'' @ '' * * :'' @ ''foo bar'' @ eol)
         then take 510 (''USER '' @ ''bar'' @ '' * * :'' @ ''foo bar'' @ eol) @ eol
         else ''USER '' @ ''bar'' @ '' * * :'' @ ''foo bar'' @ eol) \<and>
      ''NICK foo'' @ eol =
        (if 510 < length (''NICK '' @ nick test_client @ eol)
         then take 510 (''NICK '' @ nick test_client @ eol) @ eol
         else ''NICK '' @ nick test_client @ eol) \<and>
      set (take 2 (wr \<lparr>rd = [], wr = []\<rparr>)) \<subseteq> {None}"
    by (simp add: test_client_def eol_def)
  have a: "Connect ?lp test_client
     = Some (Returned None,
         test_client\<lparr>currentNick := ''foo'',
           trace := [Write (''USER bar * * :foo bar'' @ eol), Write (''NICK foo'' @ eol)]\<rparr>)"
    using Connect_handshake [where c = test_client and u = "''bar''" and r = "''foo bar''"
      and lp = ?lp and k = "\<lparr>rd = [], wr = []\<rparr>" and ds = "[]"
      and tr = "[]" and wu = "''USER bar * * :foo bar'' @ eol" and wn = "''NICK foo'' @ eol",
      OF n(1) u(1) r(1), THEN conjunct2, THEN mp, OF ha]
    by (simp add: test_client_def)
  have hc: "conn ?f = None \<and> addr ?f \<noteq> [] \<and> dials ?f = Inl (Err ''connection refused'') # []"
    by (simp add: test_client_def)
  have c: "Connect ?lp ?f
     = Some (Returned (Some (Err ''connection refused'')),
         test_client\<lparr>conn := None, addr := ''irc.example.net:6667'', currentNick := ''foo'',
           trace := [Dial ''irc.example.net:6667'']\<rparr>)"
    using Connect_handshake [where c = ?f and u = "''bar''" and r = "''foo bar''"
      and e = "Err ''connection refused''" and ds = "[]" and lp = ?lp,
      OF n(3) u(2) r(2), THEN conjunct1, THEN mp, OF hc]
    by (simp add: test_client_def)
  show ?thesis
    using a c by (simp add: test_client_def)
qed

text \<open>
  C7 as stated fails: the preconditions hold (an address and a nick), the dial is
  refused, and \<open>Connect\<close> returns that error having written no line.
\<close>

theorem Connect_dial_counterexample:
  "nick (test_client\<lparr>conn := None, addr := ''irc.example.net:6667'',
          dials := [Inl (Err ''connection refused'')]\<rparr>) \<noteq> [] \<and>
   addr (test_client\<lparr>conn := None, addr := ''irc.example.net:6667'',
          dials := [Inl (Err ''connection refused'')]\<rparr>) \<noteq> [] \<and>
   Connect (loop parse_sample 1)
       (test_client\<lparr>conn := None, addr := ''irc.example.net:6667'',
          dials := [Inl (Err ''connection refused'')]\<rparr>)
     = Some (Returned (Some (Err ''connection refused'')),
         test_client\<lparr>conn := None, addr := ''irc.example.net:6667'', currentNick := ''foo'',
           dials := [], trace := [Dial ''irc.example.net:6667'']\<rparr>)"
  by (simp add: test_client_def Connect_def net_Dial_def)

section \<open>The read loop\<close>

lemma poll_quit_fields:
  assumes "poll_quit c = (q, c0)"
  shows "conn c0 = conn c" "debug c0 = debug c" "trace c0 = trace c"
  using assms by (auto simp: poll_quit_def split: list.splits)

lemma poll_quit_cases:
  "poll_quit c = (q, c0) \<longleftrightarrow> (quit c = [] \<and> \<not> q \<and> c0 = c \<or> (\<exists>qs. quit c = q # qs \<and> c0 = c\<lparr>quit := qs\<rparr>))"
  by (auto simp: poll_quit_def split: list.splits)

lemma ReadLine_fields:
  assumes "ReadLine c0 k = ((l, err), c1)"
  shows "debug c1 = debug c0" "trace c1 = trace c0"
  using assms by (auto simp: ReadLine_def split: list.splits)

lemma ReadLine_no_EOF:
  assumes "ReadLine c0 k = ((l, err), c1)" and "err \<noteq> Some EOF"
  shows "rd k = (l, err) # tl (rd k)" "c1 = c0\<lparr>conn := Some (k\<lparr>rd := tl (rd k)\<rparr>)\<rparr>"
  using assms by (auto simp: ReadLine_def split: list.splits)

lemma loop_Suc:
  assumes "poll_quit c = (False, c0)" and "conn c = Some k" and "ReadLine c0 k = ((l, err), c1)"
  shows "loop parse (Suc n) c =
         (if err = Some EOF then reconnect (Connect (loop parse n)) (log c1 l [])
          else case err of
            Some e \<Rightarrow> Some (Returned (Some e), log c1 l [])
          | None \<Rightarrow>
              (case parse l of
                 (_, Some e) \<Rightarrow> loop parse n (log (log c1 l []) (Error e) [])
               | (None, None) \<Rightarrow> Some (Panicked, log c1 l [])
               | (Some m, None) \<Rightarrow>
                   loop parse n (hub_Send (hub_Send (log c1 l []) (Command m) m) ''*'' m)))"
  using assms poll_quit_fields(1) [OF assms(1)] by (simp add: Let_def)

lemma loop_other_error:
  assumes "poll_quit c = (False, c0)" and "conn c = Some k" and "ReadLine c0 k = ((l, Some e), c1)"
    and "e \<noteq> EOF"
  shows "loop parse (Suc n) c = Some (Returned (Some e), log c1 l [])"
  by (subst loop_Suc [OF assms(1-3)]) (use assms(4) in simp)

lemma loop_skips_malformed:
  assumes "poll_quit c = (False, c0)" and "conn c = Some k" and "ReadLine c0 k = ((l, None), c1)"
    and "parse l = (m, Some e)"
  shows "loop parse (Suc n) c = loop parse n (log (log c1 l []) (Error e) [])"
  by (subst loop_Suc [OF assms(1-3)]) (use assms(4) in \<open>simp split: option.split\<close>)

lemma loop_message:
  assumes "poll_quit c = (False, c0)" and "conn c = Some k" and "ReadLine c0 k = ((l, None), c1)"
    and "parse l = (Some m, None)"
  shows "loop parse (Suc n) c =
         loop parse n (hub_Send (hub_Send (log c1 l []) (Command m) m) ''*'' m)"
  by (subst loop_Suc [OF assms(1-3)]) (use assms(4) in simp)

lemma Connect_read_error:
  assumes "nick c \<noteq> []" and "conn c = Some k" and "set (take 2 (wr k)) \<subseteq> {None}"
    and "quit c = [] \<or> (\<exists>qs. quit c = False # qs)"
    and "rd k = (l, Some e) # rs" and "e \<noteq> EOF"
  shows "\<exists>c'. Connect (loop parse (Suc n)) c = Some (Returned (Some e), c')"
proof -
  obtain c4 where c4: "Connect (loop parse (Suc n)) c = loop parse (Suc n) c4"
    and k4: "conn c4 = Some (k\<lparr>wr := drop 2 (wr k)\<rparr>)" and q4: "quit c4 = quit c"
    using Connect_enters_loop [OF assms(1) _ refl refl refl refl assms(3), of "dials c" "trace c"
        "loop parse (Suc n)"] assms(2)
    by simp
  obtain c0 where c0: "poll_quit c4 = (False, c0)"
    using assms(4) q4 by (auto simp: poll_quit_def)
  obtain c1 where c1: "ReadLine c0 (k\<lparr>wr := drop 2 (wr k)\<rparr>) = ((l, Some e), c1)"
    using assms(5) by (simp add: ReadLine_def)
  show ?thesis
    using loop_other_error [OF c0 k4 c1 assms(6)] c4 by simp
qed

text \<open>
  C4, as the code has it. Take an iteration of the loop that finds no quit pending and
  reads from its transport. If the read returns end of stream, the loop ends in
  \<open>reconnect\<close>. If it returns any other error, the loop returns that error, and so does
  a \<open>Connect\<close> that had entered it. If the read succeeds and the line fails to parse,
  the message of the error is handed to \<open>log\<close>, which records it only when debugging is
  on; nothing is published, and the loop goes on with the rest of what the transport has
  to read.
\<close>

theorem loop_read_errors:
  assumes "poll_quit c = (False, c0)" and "conn c = Some k" and "ReadLine c0 k = ((l, err), c1)"
    and "c2 = log c1 l []"
  shows "(err = Some EOF \<longrightarrow> loop parse (Suc n) c = reconnect (Connect (loop parse n)) c2) \<and>
         (err = Some e \<and> e \<noteq> EOF \<longrightarrow> loop parse (Suc n) c = Some (Returned (Some e), c2)) \<and>
         (err = None \<and> parse l = (m, Some e) \<longrightarrow>
            loop parse (Suc n) c = loop parse n (log c2 (Error e) []) \<and>
            conn (log c2 (Error e) []) = Some (k\<lparr>rd := tl (rd k)\<rparr>) \<and>
            trace (log c2 (Error e) []) =
              trace c2 @ (if debug c \<and> Error e \<noteq> [] then [Printf (Error e) []] else [])) \<and>
         (nick c' \<noteq> [] \<and> conn c' = Some k' \<and> set (take 2 (wr k')) \<subseteq> {None} \<and> quit c' = [] \<and>
          rd k' = (l', Some e) # rs \<and> e \<noteq> EOF \<longrightarrow>
            (\<exists>c''. Connect (loop parse (Suc n)) c' = Some (Returned (Some e), c'')))"
proof (intro conjI impI)
  show "loop parse (Suc n) c = reconnect (Connect (loop parse n)) c2" if "err = Some EOF"
    by (subst loop_Suc [OF assms(1-3)]) (use that assms(4) in simp)
  show "loop parse (Suc n) c = Some (Returned (Some e), c2)" if "err = Some e \<and> e \<noteq> EOF"
    using that assms(3,4) loop_other_error [OF assms(1,2), of l e c1 parse n] by simp
  show "\<exists>c''. Connect (loop parse (Suc n)) c' = Some (Returned (Some e), c'')"
    if "nick c' \<noteq> [] \<and> conn c' = Some k' \<and> set (take 2 (wr k')) \<subseteq> {None} \<and> quit c' = [] \<and>
          rd k' = (l', Some e) # rs \<and> e \<noteq> EOF"
    using that Connect_read_error [of c' k' l' e rs parse n] by simp
next
  assume a: "err = None \<and> parse l = (m, Some e)"
  have d: "debug c2 = debug c"
    using assms(4) ReadLine_fields(1) [OF assms(3)] poll_quit_fields(2) [OF assms(1)]
    by (simp add: log_def)
  have k: "c1 = c0\<lparr>conn := Some (k\<lparr>rd := tl (rd k)\<rparr>)\<rparr>"
    using ReadLine_no_EOF(2) [OF assms(3)] a by simp
  show "loop parse (Suc n) c = loop parse n (log c2 (Error e) [])"
    using a assms(3,4) loop_skips_malformed [OF assms(1,2), of l c1 parse m e n] by simp
  show "conn (log c2 (Error e) []) = Some (k\<lparr>rd := tl (rd k)\<rparr>)"
    using assms(4) k by simp
  show "trace (log c2 (Error e) []) =
          trace c2 @ (if debug c \<and> Error e \<noteq> [] then [Printf (Error e) []] else [])"
    using d by (simp add: trace_log)
qed


theorem loop_read_errors_witness:
  "loop parse_sample (Suc 0) test_client = reconnect (Connect (loop parse_sample 0)) test_client \<and>
   loop parse_sample (Suc 0)
     (test_client\<lparr>conn := Some \<lparr>rd = [([], Some (Err ''connection reset''))], wr = []\<rparr>\<rparr>)
     = Some (Returned (Some (Err ''connection reset'')), test_client) \<and>
   loop parse_sample (Suc 0)
     (test_client\<lparr>conn := Some \<lparr>rd = [(''foo:'', None)], wr = []\<rparr>, debug := True\<rparr>)
     = loop parse_sample 0
         (test_client\<lparr>debug := True, trace := [Printf ''foo:'' [], Printf ''malformed message'' []]\<rparr>) \<and>
   (\<exists>c''. Connect (loop parse_sample (Suc 0))
       (test_client\<lparr>conn := Some \<lparr>rd = [([], Some (Err ''connection reset''))], wr = []\<rparr>\<rparr>)
     = Some (Returned (Some (Err ''connection reset'')), c''))"
proof -
  let ?kE = "\<lparr>rd = [([], Some (Err ''connection reset''))], wr = []\<rparr>"
  let ?cE = "test_client\<lparr>conn := Some ?kE\<rparr>"
  let ?kP = "\<lparr>rd = [(''foo:'', None)], wr = []\<rparr>"
  let ?cP = "test_client\<lparr>conn := Some ?kP, debug := True\<rparr>"
  let ?cP1 = "test_client\<lparr>debug := True\<rparr>"
  have q: "poll_quit test_client = (False, test_client)" "poll_quit ?cE = (False, ?cE)"
    "poll_quit ?cP = (False, ?cP)"
    by (simp_all add: poll_quit_def test_client_def)
  have k: "conn test_client = Some \<lparr>rd = [], wr = []\<rparr>" "conn ?cE = Some ?kE" "conn ?cP = Some ?kP"
    by (simp_all add: test_client_def)
  have r: "ReadLine test_client \<lparr>rd = [], wr = []\<rparr> = (([], Some EOF), test_client)"
    "ReadLine ?cE ?kE = (([], Some (Err ''connection reset'')), test_client)"
    "ReadLine ?cP ?kP = ((''foo:'', None), ?cP1)"
    by (simp_all add: ReadLine_def test_client_def)
  have l: "test_client = log test_client [] []"
    "?cP1\<lparr>trace := [Printf ''foo:'' []]\<rparr> = log ?cP1 ''foo:'' []"
    by (simp_all add: log_def test_client_def)
  have w1: "loop parse_sample (Suc 0) test_client
            = reconnect (Connect (loop parse_sample 0)) test_client"
    using loop_read_errors [OF q(1) k(1) r(1) l(1), THEN conjunct1] by simp
  have w2: "loop parse_sample (Suc 0) ?cE = Some (Returned (Some (Err ''connection reset'')), test_client)"
    using loop_read_errors [OF q(2) k(2) r(2) l(1), THEN conjunct2, THEN conjunct1,
        of "Err ''connection reset''"] by simp
  have w3: "loop parse_sample (Suc 0) ?cP
            = loop parse_sample 0
                (test_client\<lparr>debug := True, trace := [Printf ''foo:'' [], Printf ''malformed message'' []]\<rparr>)"
    using loop_read_errors [OF q(3) k(3) r(3) l(2), THEN conjunct2, THEN conjunct2, THEN conjunct1,
        of parse_sample None "Err ''malformed message''" 0]
    by (simp add: parse_sample_def log_def test_client_def)
  have w4: "\<exists>c''. Connect (loop parse_sample (Suc 0)) ?cE
                 = Some (Returned (Some (Err ''connection reset'')), c'')"
    using loop_read_errors [OF q(1) k(1) r(1) l(1), THEN conjunct2, THEN conjunct2, THEN conjunct2,
        of ?cE ?kE "[]" "Err ''connection reset''" "[]" parse_sample 0]
    by (simp add: test_client_def)
  show ?thesis
    using w1 w2 w3 w4 by blast
qed

text \<open>
  C4 as stated fails: with debugging off, as in the client of the test suite, the line
  \<open>foo:\<close> fails to parse and is skipped, the next read ends the loop, and no log entry
  was made.
\<close>

theorem loop_parse_error_counterexample:
  "\<not> debug (test_client\<lparr>conn := Some \<lparr>rd = [(''foo:'', None), ([], Some (Err ''connection reset''))],
                                        wr = []\<rparr>\<rparr>) \<and>
   parse_sample ''foo:'' = (None, Some (Err ''malformed message'')) \<and>
   loop parse_sample (Suc (Suc 0))
     (test_client\<lparr>conn := Some \<lparr>rd = [(''foo:'', None), ([], Some (Err ''connection reset''))],
                                  wr = []\<rparr>\<rparr>)
     = Some (Returned (Some (Err ''connection reset'')), test_client) \<and>
   trace test_client = []"
  by (simp add: test_client_def parse_sample_def poll_quit_def ReadLine_def log_def)

text \<open>
  C5. Take an iteration of the loop that finds no quit pending, reads a line without
  error and parses it into a message. The next iteration starts from a state whose trace
  has grown by the debug log of the line and then by exactly two publishes of that
  message: under its \<open>Command\<close> first, under \<open>*\<close> second. The transport of that state
  holds the rest of the lines, so both publishes come before the next read.
\<close>

theorem loop_publishes:
  assumes "poll_quit c = (False, c0)" and "conn c = Some k" and "rd k = (l, None) # rs"
    and "parse l = (Some m, None)"
    and "c2 = log (c0\<lparr>conn := Some (k\<lparr>rd := rs\<rparr>)\<rparr>) l []"
  shows "loop parse (Suc n) c =
           loop parse n (c2\<lparr>trace := trace c2 @ [Publish (Command m) m, Publish ''*'' m]\<rparr>) \<and>
         trace c2 = trace c @ (if debug c \<and> l \<noteq> [] then [Printf l []] else []) \<and>
         conn c2 = Some (k\<lparr>rd := rs\<rparr>)"
proof (intro conjI)
  have r: "ReadLine c0 k = ((l, None), c0\<lparr>conn := Some (k\<lparr>rd := rs\<rparr>)\<rparr>)"
    using assms(3) by (simp add: ReadLine_def)
  show "loop parse (Suc n) c =
          loop parse n (c2\<lparr>trace := trace c2 @ [Publish (Command m) m, Publish ''*'' m]\<rparr>)"
    using loop_message [where parse = parse and n = n, OF assms(1,2) r assms(4)] assms(5) by (simp add: hub_Send_def)
  show "trace c2 = trace c @ (if debug c \<and> l \<noteq> [] then [Printf l []] else [])"
    using assms(5) poll_quit_fields(2,3) [OF assms(1)] by (simp add: log_def)
  show "conn c2 = Some (k\<lparr>rd := rs\<rparr>)"
    using assms(5) by simp
qed

theorem loop_publishes_witness:
  "loop parse_sample (Suc (Suc 0))
     (test_client\<lparr>conn := Some \<lparr>rd = [(''PING :irc.example.net'', None),
                                        ([], Some (Err ''connection reset''))], wr = []\<rparr>\<rparr>)
   = Some (Returned (Some (Err ''connection reset'')),
       test_client\<lparr>trace :=
         [Publish ''PING'' \<lparr>Raw = ''PING :irc.example.net'', Name = [], User = [], Host = [],
                            Command = ''PING'', Params = '':irc.example.net'',
                            ParamsArray = ['':irc.example.net'']\<rparr>,
          Publish ''*'' \<lparr>Raw = ''PING :irc.example.net'', Name = [], User = [], Host = [],
                         Command = ''PING'', Params = '':irc.example.net'',
                         ParamsArray = ['':irc.example.net'']\<rparr>]\<rparr>)"
proof -
  let ?k = "\<lparr>rd = [(''PING :irc.example.net'', None), ([], Some (Err ''connection reset''))], wr = []\<rparr>"
  let ?c = "test_client\<lparr>conn := Some ?k\<rparr>"
  let ?m = "\<lparr>Raw = ''PING :irc.example.net'', Name = [], User = [], Host = [],
             Command = ''PING'', Params = '':irc.example.net'', ParamsArray = ['':irc.example.net'']\<rparr>"
  have q: "poll_quit ?c = (False, ?c)"
    by (simp add: poll_quit_def test_client_def)
  have k: "conn ?c = Some ?k" "rd ?k = (''PING :irc.example.net'', None) # [([], Some (Err ''connection reset''))]"
    by simp_all
  have p: "parse_sample ''PING :irc.example.net'' = (Some ?m, None)"
    by (simp add: parse_sample_def)
  show ?thesis
    using loop_publishes [where parse = parse_sample and n = "Suc 0", OF q k p refl, THEN conjunct1]
    by (simp add: test_client_def poll_quit_def ReadLine_def log_def)
qed

section \<open>Reconnecting\<close>











end
